theory Spec2Isabelle
  imports Main "HOL-Library.Word" "HOL-Library.Sublist" "HOL-Library.AList"
begin

section \<open>Data model\<close>

subsection \<open>Log levels (logrus)\<close>

text \<open>
  logrus declares \<^verbatim>\<open>type Level uint32\<close> and numbers its seven levels from
  \<^verbatim>\<open>PanicLevel = 0\<close> upwards. Any other 32-bit value is a level too, one that
  \<^verbatim>\<open>Level.String\<close> prints as "unknown".
\<close>

type_synonym Level = "32 word"

definition PanicLevel :: Level where "PanicLevel = 0"
definition FatalLevel :: Level where "FatalLevel = 1"
definition ErrorLevel :: Level where "ErrorLevel = 2"
definition WarnLevel :: Level where "WarnLevel = 3"
definition InfoLevel :: Level where "InfoLevel = 4"
definition DebugLevel :: Level where "DebugLevel = 5"
definition TraceLevel :: Level where "TraceLevel = 6"

definition Level_String :: "Level \<Rightarrow> string" where
  "Level_String l =
     (if l = TraceLevel then ''trace''
      else if l = DebugLevel then ''debug''
      else if l = InfoLevel then ''info''
      else if l = WarnLevel then ''warning''
      else if l = ErrorLevel then ''error''
      else if l = FatalLevel then ''fatal''
      else if l = PanicLevel then ''panic''
      else ''unknown'')"

subsection \<open>Readers, requests and the heap\<close>

text \<open>
  A Go string and a byte slice are both sequences of bytes: \<^typ>\<open>string\<close>, whose
  \<^const>\<open>length\<close> counts bytes as Go's \<^verbatim>\<open>len\<close> does.

  An \<^verbatim>\<open>io.Reader\<close> is an object on the heap. Its state is the bytes it has
  still to yield and the way the stream ends after them: with \<^verbatim>\<open>io.EOF\<close>
  (\<^const>\<open>None\<close>) or with a read error. Every stream of the model ends; a body that
  never ends keeps \<^verbatim>\<open>io.ReadAll\<close> from returning and is not a value of this type.
\<close>

type_synonym addr = nat

datatype reader = Reader (pending: string) (failure: "string option")

record FileHeader =
  Filename :: string
  Size :: int

record Form =
  Value :: "(string \<times> string list) list"
  File :: "(string \<times> FileHeader list) list"

text \<open>
  The fields of \<^verbatim>\<open>http.Request\<close> that the hook reads. \<open>http_URL\<close> is the text
  \<^verbatim>\<open>Request.URL.String()\<close> returns; \<open>http_Body\<close> is \<^const>\<open>None\<close> for a nil
  body and the address of the body's reader otherwise.
\<close>

record http_Request =
  http_Method :: string
  http_URL :: string
  http_Header :: "string \<rightharpoonup> string list"
  http_Body :: "addr option"
  http_MultipartForm :: "Form option"

record heap =
  readers :: "addr \<Rightarrow> reader"
  next_reader :: addr
  requests :: "addr \<Rightarrow> http_Request"
  next_request :: addr

subsection \<open>The hook's own types\<close>

definition REQUEST_FIELD_KEY :: string where
  "REQUEST_FIELD_KEY = ''request''"

record LoggerHttpRequestPayload =
  Request :: "addr option"
  Method :: string
  URL :: string
  BodyString :: string
  Headers :: string

record Hook =
  HookUrl :: string
  lvl :: "Level list"

text \<open>
  The values of \<^verbatim>\<open>entry.Data\<close> have the dynamic type \<^verbatim>\<open>interface{}\<close>. The hook
  tests them for three types: the payload struct, \<^verbatim>\<open>error\<close> and \<^verbatim>\<open>string\<close>.
  A pointer to a payload struct is a different dynamic type from the struct.
\<close>

datatype dyn =
    DynPayload LoggerHttpRequestPayload
  | DynPayloadPtr LoggerHttpRequestPayload
  | DynError string
  | DynString string
  | DynOther

record Entry =
  Data :: "string \<rightharpoonup> dyn"
  Level :: Level
  Message :: string
  Time :: int

section \<open>Standard library operations\<close>

fun strings_Contains :: "string \<Rightarrow> string \<Rightarrow> bool" where
  "strings_Contains [] substr = (substr = [])"
| "strings_Contains (c # s) substr = (prefix substr (c # s) \<or> strings_Contains s substr)"

definition Header_Get :: "(string \<rightharpoonup> string list) \<Rightarrow> string \<Rightarrow> string" where
  "Header_Get hdr k = (case hdr k of None \<Rightarrow> [] | Some [] \<Rightarrow> [] | Some (v # _) \<Rightarrow> v)"

text \<open>
  \<^verbatim>\<open>io.ReadAll\<close> reads until the stream ends and returns the bytes it has read
  together with the error, if the stream ended with one; the reader is left drained.
\<close>

definition io_ReadAll :: "addr \<Rightarrow> heap \<Rightarrow> (string \<times> string option) \<times> heap" where
  "io_ReadAll a h =
     ((pending (readers h a), failure (readers h a)),
      h\<lparr>readers := (readers h)(a := Reader [] (failure (readers h a)))\<rparr>)"

text \<open>\<^verbatim>\<open>io.NopCloser(bytes.NewBuffer(b))\<close>: a new reader that yields \<open>b\<close>, then EOF.\<close>

definition bytes_NewBuffer :: "string \<Rightarrow> heap \<Rightarrow> addr \<times> heap" where
  "bytes_NewBuffer b h =
     (next_reader h,
      h\<lparr>readers := (readers h)(next_reader h := Reader b None),
        next_reader := Suc (next_reader h)\<rparr>)"

text \<open>
  \<^verbatim>\<open>Request.Clone\<close>: a new request object with copies of the method, the URL, the
  header and the parsed form; the body reader is shared with the original.
\<close>

definition Clone :: "addr \<Rightarrow> heap \<Rightarrow> addr \<times> heap" where
  "Clone p h =
     (next_request h,
      h\<lparr>requests := (requests h)(next_request h := requests h p),
        next_request := Suc (next_request h)\<rparr>)"

definition set_Body :: "addr \<Rightarrow> addr option \<Rightarrow> heap \<Rightarrow> heap" where
  "set_Body p b h = h\<lparr>requests := (requests h)(p := (requests h p)\<lparr>http_Body := b\<rparr>)\<rparr>"

section \<open>The hook\<close>

definition NewHook :: "string \<Rightarrow> Level list \<Rightarrow> Hook" where
  "NewHook webhookURL levels =
     \<lparr>HookUrl = webhookURL,
      lvl = (if length levels = 0
             then [PanicLevel, FatalLevel, ErrorLevel, WarnLevel]
             else levels)\<rparr>"

definition Levels :: "Hook \<Rightarrow> Level list" where
  "Levels h = lvl h"

text \<open>
  The synchronous part of \<^verbatim>\<open>Fire\<close> after the URL check: the copy of
  \<^verbatim>\<open>entry.Data["request"]\<close> handed to the goroutine (\<^const>\<open>None\<close> is the nil
  pointer), and the heap as the caller finds it afterwards.
\<close>

definition snapshot :: "Entry \<Rightarrow> heap \<Rightarrow> LoggerHttpRequestPayload option \<times> heap" where
  "snapshot entry h =
     (case Data entry REQUEST_FIELD_KEY of
        Some (DynPayload valReq) \<Rightarrow>
          (case Request valReq of
             Some p \<Rightarrow>
               (let (c, h1) = Clone p h;
                    dataRequestPayload =
                      \<lparr>Request = Some c, Method = [], URL = [], BodyString = [], Headers = []\<rparr>
                in case http_Body (requests h1 p) of
                     Some b \<Rightarrow>
                       (let ((bodyBytes, err), h2) = io_ReadAll b h1;
                            (b1, h3) = bytes_NewBuffer bodyBytes h2;
                            h4 = set_Body p (Some b1) h3;
                            (b2, h5) = bytes_NewBuffer bodyBytes h4;
                            h6 = set_Body c (Some b2) h5
                        in (Some dataRequestPayload, h6))
                   | None \<Rightarrow> (Some dataRequestPayload, h1))
           | None \<Rightarrow>
               (Some \<lparr>Request = None, Method = Method valReq, URL = URL valReq,
                      BodyString = BodyString valReq, Headers = Headers valReq\<rparr>, h))
      | _ \<Rightarrow> (None, h))"

text \<open>
  \<^verbatim>\<open>Fire\<close> up to its \<^verbatim>\<open>return\<close>: the error returned (\<^const>\<open>None\<close> is nil), the
  heap afterwards, and the argument of the goroutine it has launched (\<^const>\<open>None\<close>
  when it has launched none).
\<close>

definition Fire ::
  "Hook \<Rightarrow> Entry \<Rightarrow> heap \<Rightarrow> string option \<times> heap \<times> LoggerHttpRequestPayload option option" where
  "Fire h entry s =
     (if HookUrl h = [] then (Some ''Discord webhook url is empty'', s, None)
      else (let (drp, s') = snapshot entry s in (None, s', Some drp)))"

section \<open>The goroutine\<close>

subsection \<open>JSON values and the library calls of the goroutine\<close>

text \<open>
  The values handed to \<^verbatim>\<open>encoding/json\<close>: strings, integers, slices and maps with
  string keys. A map is an association list; \<^const>\<open>AList.update\<close> is the assignment
  \<^verbatim>\<open>m[key] = v\<close>.
\<close>

datatype json =
    JString string
  | JNumber int
  | JArray "json list"
  | JObject "(string \<times> json) list"

datatype pmf_error = ErrNotMultipart | ErrOther string

record part =
  part_name :: string
  part_filename :: "string option"
  part_content :: string

datatype body = SinglePart string | MultiPart "part list"

record post =
  post_url :: string
  post_content_type :: string
  post_body :: body

text \<open>
  The calls into the Go standard library whose results the hook branches on are
  parameters of the model. An error result carries the text of \<^verbatim>\<open>err.Error()\<close>.
  \<^item> \<open>ParseMultipartForm r b\<close>: \<^verbatim>\<open>Request.ParseMultipartForm(32 << 20)\<close> on the
    request \<open>r\<close> whose body yields \<open>b\<close>: the error returned and the request's
    \<^verbatim>\<open>MultipartForm\<close> afterwards (\<^const>\<open>None\<close> is nil).
  \<^item> \<open>ParseQuery\<close>: \<^verbatim>\<open>url.ParseQuery\<close>, the values parsed and the first error.
  \<^item> \<open>MarshalIndent\<close>, \<open>Marshal\<close>: \<^verbatim>\<open>json.MarshalIndent(v, "", "  ")\<close> and
    \<^verbatim>\<open>json.Marshal\<close>, \<^const>\<open>Inl\<close> the error.
  \<^item> \<open>FormatRFC3339\<close>: \<^verbatim>\<open>entry.Time.UTC().Format(time.RFC3339)\<close>.
  \<^item> \<open>SprintfKB n\<close>: \<^verbatim>\<open>fmt.Sprintf("%.2f KB", float64(n)/1024)\<close>.
  \<^item> \<open>CreateFormField\<close>, \<open>CreateFormFile\<close>: the error of the multipart writer's
    calls, \<open>Boundary\<close> the boundary it has drawn.
  \<^item> \<open>NewRequest\<close>: the error of \<^verbatim>\<open>http.NewRequest(method, url, body)\<close>.
  \<^item> \<open>Do\<close>: \<^verbatim>\<open>client.Do\<close>, the transport's error or the response's status code.
\<close>

record stdlib =
  ParseMultipartForm :: "http_Request \<Rightarrow> string \<Rightarrow> pmf_error option \<times> Form option"
  ParseQuery :: "string \<Rightarrow> (string \<times> string list) list \<times> string option"
  MarshalIndent :: "json \<Rightarrow> string + string"
  Marshal :: "json \<Rightarrow> string + string"
  FormatRFC3339 :: "int \<Rightarrow> string"
  SprintfKB :: "int \<Rightarrow> string"
  CreateFormField :: "string \<Rightarrow> string option"
  CreateFormFile :: "string \<Rightarrow> string \<Rightarrow> string option"
  Boundary :: string
  NewRequest :: "string \<Rightarrow> string \<Rightarrow> string option"
  Do :: "post \<Rightarrow> string + nat"

text \<open>ASCII letters are all that \<^const>\<open>Level_String\<close> produces.\<close>

definition strings_ToUpper :: "string \<Rightarrow> string" where
  "strings_ToUpper s =
     map (\<lambda>c. if 97 \<le> (of_char c :: nat) \<and> (of_char c :: nat) \<le> 122
              then char_of ((of_char c :: nat) - 32) else c) s"

subsection \<open>Error text and colour\<close>

definition errorMessage :: "Entry \<Rightarrow> string" where
  "errorMessage entry =
     (case Data entry ''error'' of
        Some (DynError errVal) \<Rightarrow> errVal
      | Some (DynString errVal) \<Rightarrow> errVal
      | _ \<Rightarrow> [])"

definition embedCollor :: "Level \<Rightarrow> int" where
  "embedCollor l =
     (if l = PanicLevel \<or> l = FatalLevel \<or> l = ErrorLevel then 16725591
      else if l = WarnLevel then 16760630
      else 12434877)"

subsection \<open>Request payload fields\<close>

definition field :: "string \<Rightarrow> string \<Rightarrow> json" where
  "field n v = JObject [(''name'', JString n), (''value'', JString v)]"

text \<open>
  The loop over \<^verbatim>\<open>MultipartForm.Value\<close>. \<^verbatim>\<open>values[0]\<close> panics on an empty slice;
  a panic is \<^const>\<open>Inl\<close> with the runtime's message.
\<close>

fun formData_loop ::
  "(string \<times> string list) list \<Rightarrow> (string \<times> json) list \<Rightarrow> string + (string \<times> json) list" where
  "formData_loop [] formData = Inr formData"
| "formData_loop ((key, values) # rest) formData =
     (if length values > 1
      then formData_loop rest (AList.update key (JArray (map JString values)) formData)
      else (case values of
              [] \<Rightarrow> Inl ''index out of range [0] with length 0''
            | v # _ \<Rightarrow> formData_loop rest (AList.update key (JString v) formData)))"

text \<open>The loop over \<^verbatim>\<open>MultipartForm.File\<close>.\<close>

fun fileInfo_loop ::
  "stdlib \<Rightarrow> (string \<times> FileHeader list) list \<Rightarrow> (string \<times> json) list
     \<Rightarrow> string + (string \<times> json) list" where
  "fileInfo_loop L [] fileInfo = Inr fileInfo"
| "fileInfo_loop L ((key, files) # rest) fileInfo =
     (if length files > 1
      then fileInfo_loop L rest
             (AList.update key
                (JObject [(''nama'', JArray (map (\<lambda>fileHeader. JString (Filename fileHeader)) files)),
                          (''ukuran'', JArray (map (\<lambda>fileHeader. JString (SprintfKB L (Size fileHeader))) files))])
                fileInfo)
      else (case files of
              [] \<Rightarrow> Inl ''index out of range [0] with length 0''
            | f # _ \<Rightarrow>
                fileInfo_loop L rest
                  (AList.update key
                     (JObject [(''nama'', JString (Filename f)),
                               (''ukuran'', JString (SprintfKB L (Size f)))])
                     fileInfo)))"

text \<open>The loop over the parsed query: every key with the list of its values.\<close>

fun urlencoded_loop ::
  "(string \<times> string list) list \<Rightarrow> (string \<times> json) list \<Rightarrow> (string \<times> json) list" where
  "urlencoded_loop [] formData = formData"
| "urlencoded_loop ((key, values) # rest) formData =
     urlencoded_loop rest (AList.update key (JArray (map JString values)) formData)"

text \<open>
  The \<^verbatim>\<open>switch\<close> on the content type: the fields it appends, or the panic it
  raises. \<open>r\<close> is the snapshot's request, \<open>bodyBytes\<close> what has been read of its body.
\<close>

definition body_fields :: "stdlib \<Rightarrow> http_Request \<Rightarrow> string \<Rightarrow> string + json list" where
  "body_fields L r bodyBytes =
     (let contentType = Header_Get (http_Header r) ''Content-Type'' in
      if strings_Contains contentType ''application/json'' then
        Inr [field ''Body'' (''```'' @ bodyBytes @ '' ```'')]
      else if strings_Contains contentType ''multipart/form-data'' then
        (case ParseMultipartForm L r bodyBytes of
           (Some (ErrOther msg), _) \<Rightarrow> Inr [field ''Body'' (''```'' @ msg @ ''```'')]
         | (_, None) \<Rightarrow> Inl ''invalid memory address or nil pointer dereference''
         | (_, Some form) \<Rightarrow>
             (case formData_loop (Value form) [] of
                Inl p \<Rightarrow> Inl p
              | Inr formData \<Rightarrow>
                  (case fileInfo_loop L (File form) [] of
                     Inl p \<Rightarrow> Inl p
                   | Inr fileInfo \<Rightarrow>
                       (let combinedData =
                              (if length formData > 0 then [(''form_fields'', JObject formData)] else [])
                              @ (if length fileInfo > 0 then [(''uploaded_files'', JObject fileInfo)] else [])
                        in case MarshalIndent L (JObject combinedData) of
                             Inr jsonString \<Rightarrow> Inr [field ''Body'' (''```'' @ jsonString @ ''```'')]
                           | Inl err \<Rightarrow> Inr []))))
      else if strings_Contains contentType ''application/x-www-form-urlencoded'' then
        (if length bodyBytes > 0 then
           (case ParseQuery L bodyBytes of
              (parsedForm, Some err) \<Rightarrow> Inr [field ''Body'' (''```'' @ bodyBytes @ '' ```'')]
            | (parsedForm, None) \<Rightarrow>
                (case MarshalIndent L (JObject (urlencoded_loop parsedForm [])) of
                   Inr jsonString \<Rightarrow> Inr [field ''Body'' (''```'' @ jsonString @ ''```'')]
                 | Inl err \<Rightarrow> Inr []))
         else Inr [])
      else
        (if length bodyBytes > 0 then
           (if length bodyBytes \<le> 1024
            then Inr [field ''Body'' (''```'' @ bodyBytes @ '' ```'')]
            else Inr [])
         else Inr []))"

text \<open>
  The list \<^verbatim>\<open>fields\<close> when the goroutine reaches the message, or its panic. The
  goroutine puts a new reader in the place of the body it has read; only
  \<^verbatim>\<open>ParseMultipartForm\<close> reads that one, and the model hands it the bytes.
\<close>

definition request_fields ::
  "stdlib \<Rightarrow> heap \<Rightarrow> LoggerHttpRequestPayload option \<Rightarrow> string + json list" where
  "request_fields L s drp =
     (case drp of
        None \<Rightarrow> Inr []
      | Some d \<Rightarrow>
          (case Request d of
             Some c \<Rightarrow>
               (let r = requests s c;
                    bodyBytes = (case http_Body r of
                                   Some b \<Rightarrow> fst (fst (io_ReadAll b s))
                                 | None \<Rightarrow> [])
                in case body_fields L r bodyBytes of
                     Inl p \<Rightarrow> Inl p
                   | Inr bf \<Rightarrow>
                       Inr ([field ''Method'' (''```'' @ http_Method r @ '' ```''),
                             field ''URL'' (''```'' @ http_URL r @ '' ```'')] @ bf))
           | None \<Rightarrow>
               Inr ((if Method d \<noteq> [] then [field ''Method'' (''```'' @ Method d @ '' ```'')] else [])
                  @ (if URL d \<noteq> [] then [field ''URL'' (''```'' @ URL d @ '' ```'')] else [])
                  @ (if BodyString d \<noteq> [] then [field ''Body'' (''```'' @ BodyString d @ '' ```'')] else [])
                  @ (if Headers d \<noteq> [] then [field ''Headers'' (''```'' @ Headers d @ '' ```'')] else []))))"

subsection \<open>Document and delivery\<close>

definition maxMessageLength :: nat where
  "maxMessageLength = 500"

definition sendAsFile :: "Entry \<Rightarrow> bool" where
  "sendAsFile entry = (length (Message entry) > maxMessageLength)"

definition embeds :: "stdlib \<Rightarrow> Entry \<Rightarrow> json list \<Rightarrow> json list" where
  "embeds L entry fields' =
     [JObject [(''title'', JString (strings_ToUpper (Level_String (Level entry)))),
               (''description'', JString (errorMessage entry)),
               (''timestamp'', JString (FormatRFC3339 L (Time entry))),
               (''color'', JNumber (embedCollor (Level entry)))],
      JObject [(''title'', JString ''REQUEST PAYLOAD''),
               (''fields'', JArray fields'),
               (''color'', JNumber (embedCollor (Level entry)))]]
     @ (if \<not> sendAsFile entry
        then [JObject [(''title'', JString ''MESSAGE''),
                       (''description'', JString (''```'' @ Message entry @ '' ```'')),
                       (''color'', JNumber (embedCollor (Level entry)))]]
        else [])"

definition document :: "stdlib \<Rightarrow> Entry \<Rightarrow> json list \<Rightarrow> json" where
  "document L entry fields' =
     JObject [(''username'', JString ''Golang''), (''embeds'', JArray (embeds L entry fields'))]"

text \<open>
  What the goroutine has done when it ends: it has panicked, or it has returned
  after handing \<open>sent\<close> to \<^verbatim>\<open>client.Do\<close> (\<^const>\<open>None\<close>: it has not reached the
  call) and printing \<open>printed\<close> (\<^const>\<open>None\<close>: it has printed nothing).
\<close>

datatype outcome = Panic string | Done (sent: "post option") (printed: "string option")

definition client_Do :: "stdlib \<Rightarrow> post \<Rightarrow> outcome" where
  "client_Do L request =
     (case Do L request of
        Inl err \<Rightarrow> Done (Some request) (Some err)
      | Inr StatusCode \<Rightarrow>
          (if StatusCode \<ge> 300
           then Done (Some request) (Some ''Failed to post to Discord webhook'')
           else Done (Some request) None))"

definition deliver :: "stdlib \<Rightarrow> Hook \<Rightarrow> Entry \<Rightarrow> json \<Rightarrow> outcome" where
  "deliver L h entry doc =
     (case Marshal L doc of
        Inl err \<Rightarrow> Done None (Some (''Failed to marshal Discord webhook payload: '' @ err))
      | Inr payload \<Rightarrow>
          (if sendAsFile entry then
             (case CreateFormField L ''payload_json'' of
                Some err \<Rightarrow> Done None (Some (''Failed to create multipart field: '' @ err))
              | None \<Rightarrow>
                  (case CreateFormFile L ''files[0]'' ''log.txt'' of
                     Some err \<Rightarrow> Done None (Some (''Failed to create multipart file: '' @ err))
                   | None \<Rightarrow>
                       (case NewRequest L ''POST'' (HookUrl h) of
                          Some err \<Rightarrow> Done None (Some err)
                        | None \<Rightarrow>
                            client_Do L
                              \<lparr>post_url = HookUrl h,
                               post_content_type = ''multipart/form-data; boundary='' @ Boundary L,
                               post_body =
                                 MultiPart
                                   [\<lparr>part_name = ''payload_json'', part_filename = None,
                                     part_content = payload\<rparr>,
                                    \<lparr>part_name = ''files[0]'', part_filename = Some ''log.txt'',
                                     part_content = Message entry\<rparr>]\<rparr>)))
           else
             (case NewRequest L ''POST'' (HookUrl h) of
                Some err \<Rightarrow> Panic ''invalid memory address or nil pointer dereference''
              | None \<Rightarrow>
                  client_Do L
                    \<lparr>post_url = HookUrl h,
                     post_content_type = ''application/json'',
                     post_body = SinglePart payload\<rparr>)))"

definition goroutine ::
  "stdlib \<Rightarrow> Hook \<Rightarrow> Entry \<Rightarrow> heap \<Rightarrow> LoggerHttpRequestPayload option \<Rightarrow> outcome" where
  "goroutine L h entry s drp =
     (case request_fields L s drp of
        Inl p \<Rightarrow> Panic p
      | Inr fields' \<Rightarrow> deliver L h entry (document L entry fields'))"

section \<open>A standard library to run the model on\<close>

text \<open>
  The theorems below hold for every behaviour of the library parameters. To run the
  model on concrete inputs, this section fixes one:
  \<^item> \<^verbatim>\<open>url.ParseQuery\<close> as net/url computes it;
  \<^item> the JSON encoders, on values whose strings are ASCII without the backspace and
    the form feed: the keys of an object in the order of their bytes, the escapes
    of \<^verbatim>\<open>encoding/json\<close>;
  \<^item> \<^verbatim>\<open>ParseMultipartForm\<close> on requests whose Content-Type header has no
    parameter: nil for a form that is already parsed, \<^verbatim>\<open>ErrNotMultipart\<close> for a
    missing header, the missing body, the missing boundary for the media type
    multipart/form-data, and \<^verbatim>\<open>ErrNotMultipart\<close> for any other media type;
  \<^item> the time 0 of every entry, the first second of 1970; file sizes that are
    multiples of 1024 bytes; a multipart writer and a request constructor that do
    not fail; and a server that answers 204.
\<close>

fun strings_Cut :: "char \<Rightarrow> string \<Rightarrow> string \<times> string" where
  "strings_Cut sep [] = ([], [])"
| "strings_Cut sep (c # s) =
     (if c = sep then ([], s) else (c # fst (strings_Cut sep s), snd (strings_Cut sep s)))"

fun split_amp :: "string \<Rightarrow> string list" where
  "split_amp [] = []"
| "split_amp (c # s) =
     (if c = CHR ''&'' then [] # split_amp s
      else (case split_amp s of [] \<Rightarrow> [[c]] | seg # segs \<Rightarrow> (c # seg) # segs))"

definition ishex :: "char \<Rightarrow> bool" where
  "ishex c = (let n = (of_char c :: nat)
              in (48 \<le> n \<and> n \<le> 57) \<or> (97 \<le> n \<and> n \<le> 102) \<or> (65 \<le> n \<and> n \<le> 70))"

definition unhex :: "char \<Rightarrow> nat" where
  "unhex c = (let n = (of_char c :: nat)
              in if 48 \<le> n \<and> n \<le> 57 then n - 48
                 else if 97 \<le> n \<and> n \<le> 102 then n - 97 + 10
                 else if 65 \<le> n \<and> n \<le> 70 then n - 65 + 10
                 else 0)"

text \<open>\<^verbatim>\<open>url.QueryUnescape\<close>; \<^const>\<open>None\<close> is its \<^verbatim>\<open>EscapeError\<close>.\<close>

fun QueryUnescape :: "string \<Rightarrow> string option" where
  "QueryUnescape [] = Some []"
| "QueryUnescape (c # s) =
     (if c = CHR ''%'' then
        (case s of
           h1 # h2 # rest \<Rightarrow>
             (if ishex h1 \<and> ishex h2
              then map_option ((#) (char_of (unhex h1 * 16 + unhex h2))) (QueryUnescape rest)
              else None)
         | _ \<Rightarrow> None)
      else if c = CHR ''+'' then map_option ((#) CHR '' '') (QueryUnescape s)
      else map_option ((#) c) (QueryUnescape s))"

fun parseQuery ::
  "string list \<Rightarrow> (string \<times> string list) list \<Rightarrow> string option
     \<Rightarrow> (string \<times> string list) list \<times> string option" where
  "parseQuery [] m err = (m, err)"
| "parseQuery (key # query) m err =
     (if CHR '';'' \<in> set key then parseQuery query m (Some ''invalid semicolon separator in query'')
      else if key = [] then parseQuery query m err
      else (case QueryUnescape (fst (strings_Cut CHR ''='' key)) of
              None \<Rightarrow> parseQuery query m (if err = None then Some ''invalid URL escape'' else err)
            | Some k \<Rightarrow>
                (case QueryUnescape (snd (strings_Cut CHR ''='' key)) of
                   None \<Rightarrow> parseQuery query m (if err = None then Some ''invalid URL escape'' else err)
                 | Some v \<Rightarrow>
                     parseQuery query
                       (AList.update k ((case map_of m k of None \<Rightarrow> [] | Some vs \<Rightarrow> vs) @ [v]) m)
                       err)))"

definition url_ParseQuery :: "string \<Rightarrow> (string \<times> string list) list \<times> string option" where
  "url_ParseQuery query = parseQuery (split_amp query) [] None"

definition hexdigit :: "nat \<Rightarrow> char" where
  "hexdigit n = (if n < 10 then char_of (48 + n) else char_of (87 + n))"

text \<open>
  The escapes of \<^verbatim>\<open>encoding/json\<close> for a byte below 0x80: the quote and the
  backslash, the newline, the carriage return and the tab, and \<^verbatim>\<open>\u00XX\<close> for the
  other control characters and for the three characters HTML reserves.
\<close>

definition escape :: "char \<Rightarrow> string" where
  "escape c =
     (if c = CHR ''\"'' \<or> c = CHR 0x5C then [CHR 0x5C, c]
      else if c = CHR 0x0A then [CHR 0x5C, CHR ''n'']
      else if c = CHR 0x0D then [CHR 0x5C, CHR ''r'']
      else if c = CHR 0x09 then [CHR 0x5C, CHR ''t'']
      else if (of_char c :: nat) < 32 \<or> c = CHR ''<'' \<or> c = CHR ''>'' \<or> c = CHR ''&''
      then [CHR 0x5C, CHR ''u'', CHR ''0'', CHR ''0'',
            hexdigit ((of_char c :: nat) div 16), hexdigit ((of_char c :: nat) mod 16)]
      else [c])"

definition quote :: "string \<Rightarrow> string" where
  "quote s = ''\"'' @ concat (map escape s) @ ''\"''"

text \<open>The encoders write the keys of a map in the order of their bytes.\<close>

fun string_less :: "string \<Rightarrow> string \<Rightarrow> bool" where
  "string_less [] [] = False"
| "string_less [] (y # ys) = True"
| "string_less (x # xs) [] = False"
| "string_less (x # xs) (y # ys) =
     ((of_char x :: nat) < of_char y \<or> (x = y \<and> string_less xs ys))"

fun insert_key :: "string \<times> 'a \<Rightarrow> (string \<times> 'a) list \<Rightarrow> (string \<times> 'a) list" where
  "insert_key kv [] = [kv]"
| "insert_key kv (x # xs) =
     (if string_less (fst x) (fst kv) then x # insert_key kv xs else kv # x # xs)"

definition sort_keys :: "(string \<times> 'a) list \<Rightarrow> (string \<times> 'a) list" where
  "sort_keys kvs = foldr insert_key kvs []"

fun join :: "string \<Rightarrow> string list \<Rightarrow> string" where
  "join sep [] = []"
| "join sep [x] = x"
| "join sep (x # y # ys) = x @ sep @ join sep (y # ys)"

fun decimal :: "nat \<Rightarrow> string" where
  "decimal n =
     (if n < 10 then [char_of (48 + n)] else decimal (n div 10) @ [char_of (48 + n mod 10)])"

definition newline :: "nat \<Rightarrow> string" where
  "newline n = CHR 0x0A # replicate (2 * n) CHR '' ''"

primrec json_indent :: "json \<Rightarrow> nat \<Rightarrow> string" where
  "json_indent (JString s) n = quote s"
| "json_indent (JNumber i) n = (if i < 0 then ''-'' else []) @ decimal (nat \<bar>i\<bar>)"
| "json_indent (JArray xs) n =
     (if xs = [] then ''[]''
      else ''['' @ newline (Suc n)
           @ join ('','' @ newline (Suc n)) (map (\<lambda>f. f (Suc n)) (map json_indent xs))
           @ newline n @ '']'')"
| "json_indent (JObject kvs) n =
     (if kvs = [] then ''{}''
      else ''{'' @ newline (Suc n)
           @ join ('','' @ newline (Suc n))
               (map (\<lambda>(k, f). quote k @ '': '' @ f (Suc n))
                  (sort_keys (map (map_prod id json_indent) kvs)))
           @ newline n @ ''}'')"

primrec json_compact :: "json \<Rightarrow> string" where
  "json_compact (JString s) = quote s"
| "json_compact (JNumber i) = (if i < 0 then ''-'' else []) @ decimal (nat \<bar>i\<bar>)"
| "json_compact (JArray xs) = ''['' @ join '','' (map json_compact xs) @ '']''"
| "json_compact (JObject kvs) =
     ''{'' @ join '',''
              (map (\<lambda>(k, v). quote k @ '':'' @ v) (sort_keys (map (map_prod id json_compact) kvs)))
     @ ''}''"

definition example_stdlib :: stdlib where
  "example_stdlib =
     \<lparr>ParseMultipartForm =
        (\<lambda>r b. case http_MultipartForm r of
                  Some f \<Rightarrow> (None, Some f)
                | None \<Rightarrow>
                    (if Header_Get (http_Header r) ''Content-Type'' = [] then (Some ErrNotMultipart, None)
                     else if http_Body r = None then (Some (ErrOther ''missing form body''), None)
                     else if Header_Get (http_Header r) ''Content-Type'' = ''multipart/form-data''
                     then (Some (ErrOther ''no multipart boundary param in Content-Type''), None)
                     else (Some ErrNotMultipart, None))),
      ParseQuery = url_ParseQuery,
      MarshalIndent = (\<lambda>j. Inr (json_indent j 0)),
      Marshal = (\<lambda>j. Inr (json_compact j)),
      FormatRFC3339 = (\<lambda>t. ''1970-01-01T00:00:00Z''),
      SprintfKB = (\<lambda>n. decimal (nat (n div 1024)) @ ''.00 KB''),
      CreateFormField = (\<lambda>name. None),
      CreateFormFile = (\<lambda>name filename. None),
      Boundary = ''0123456789abcdef'',
      NewRequest = (\<lambda>method u. None),
      Do = (\<lambda>request. Inr 204)\<rparr>"

subsection \<open>Example inputs\<close>

definition example_hook :: Hook where
  "example_hook = NewHook ''https://discord.com/api/webhooks/1/token'' []"

text \<open>
  A heap with one request, at address 0, with the content type \<open>ct\<close> and a body
  stream \<open>rd\<close> at address 0 of the readers.
\<close>

definition example_heap :: "string \<Rightarrow> reader \<Rightarrow> heap" where
  "example_heap ct rd =
     \<lparr>readers = (\<lambda>a. if a = 0 then rd else Reader [] None),
      next_reader = 1,
      requests =
        (\<lambda>a. \<lparr>http_Method = ''POST'', http_URL = ''https://api.example.com/users'',
               http_Header = [''Content-Type'' \<mapsto> [ct]],
               http_Body = Some 0, http_MultipartForm = None\<rparr>),
      next_request = 1\<rparr>"

definition example_entry :: "dyn option \<Rightarrow> string \<Rightarrow> Entry" where
  "example_entry request msg =
     \<lparr>Data = (\<lambda>k. if k = ''request'' then request else None),
      Level = ErrorLevel, Message = msg, Time = 0\<rparr>"

definition live_payload :: LoggerHttpRequestPayload where
  "live_payload = \<lparr>Request = Some 0, Method = [], URL = [], BodyString = [], Headers = []\<rparr>"

subsection \<open>Notions used in the statements\<close>

text \<open>What the goroutine reads from the body of the request at \<open>c\<close> in the heap \<open>s\<close>.\<close>

definition snapshot_body :: "heap \<Rightarrow> addr \<Rightarrow> string" where
  "snapshot_body s c =
     (case http_Body (requests s c) of
        Some b \<Rightarrow> fst (fst (io_ReadAll b s))
      | None \<Rightarrow> [])"

text \<open>
  The sections of a document, the value of its key "embeds", and those of them that
  are titled "MESSAGE".
\<close>

definition embeds_of :: "json \<Rightarrow> json list" where
  "embeds_of doc =
     (case doc of
        JObject kvs \<Rightarrow> (case map_of kvs ''embeds'' of Some (JArray es) \<Rightarrow> es | _ \<Rightarrow> [])
      | _ \<Rightarrow> [])"

definition section_title :: "json \<Rightarrow> json option" where
  "section_title e = (case e of JObject kvs \<Rightarrow> map_of kvs ''title'' | _ \<Rightarrow> None)"

definition message_sections :: "json list \<Rightarrow> json list" where
  "message_sections es = filter (\<lambda>e. section_title e = Some (JString ''MESSAGE'')) es"

section \<open>Properties\<close>

lemmas Level_defs =
  PanicLevel_def FatalLevel_def ErrorLevel_def WarnLevel_def
  InfoLevel_def DebugLevel_def TraceLevel_def

text \<open>\<^verbatim>\<open>strings.Contains\<close> is the test for a contiguous sublist.\<close>

lemma strings_Contains_sublist: "strings_Contains s substr = sublist substr s"
  by (induction s) (simp_all add: sublist_Cons_right)

lemmas example_defs =
  example_hook_def example_heap_def example_entry_def live_payload_def
  NewHook_def REQUEST_FIELD_KEY_def

subsection \<open>Subscribed levels and colours\<close>

text \<open>
  C5. Without levels, \<open>NewHook\<close> subscribes to the four levels Panic, Fatal, Error and
  Warn (four distinct levels); with a non-empty list of levels, \<open>Levels\<close> returns that
  list and nothing of the default.
\<close>

theorem C5_Levels:
  "(levels = [] \<longrightarrow>
      Levels (NewHook webhookURL levels) = [PanicLevel, FatalLevel, ErrorLevel, WarnLevel])
   \<and> (levels \<noteq> [] \<longrightarrow> Levels (NewHook webhookURL levels) = levels)
   \<and> distinct [PanicLevel, FatalLevel, ErrorLevel, WarnLevel]"
  by (simp add: Levels_def NewHook_def Level_defs)

theorem C5_Levels_witness:
  "Levels (NewHook ''https://discord.com/api/webhooks/1/token'' [])
     = [PanicLevel, FatalLevel, ErrorLevel, WarnLevel]
   \<and> [InfoLevel, ErrorLevel] \<noteq> []
   \<and> Levels (NewHook ''https://discord.com/api/webhooks/1/token'' [InfoLevel, ErrorLevel])
     = [InfoLevel, ErrorLevel]"
  using C5_Levels [of "[]" "''https://discord.com/api/webhooks/1/token''"]
        C5_Levels [of "[InfoLevel, ErrorLevel]" "''https://discord.com/api/webhooks/1/token''"]
  by simp

text \<open>
  C9. The colour is defined for every level, that is for every 32-bit value: Panic,
  Fatal and Error give 16725591, Warn gives 16760630, and every other level gives
  12434877.
\<close>

theorem C9_embedCollor_total:
  "embedCollor PanicLevel = 16725591 \<and> embedCollor FatalLevel = 16725591
   \<and> embedCollor ErrorLevel = 16725591 \<and> embedCollor WarnLevel = 16760630
   \<and> (l \<notin> {PanicLevel, FatalLevel, ErrorLevel, WarnLevel} \<longrightarrow> embedCollor l = 12434877)"
  by (simp add: embedCollor_def Level_defs)

theorem C9_embedCollor_total_witness:
  "InfoLevel \<notin> {PanicLevel, FatalLevel, ErrorLevel, WarnLevel}
   \<and> embedCollor InfoLevel = 12434877
   \<and> (4294967295 :: Level) \<notin> {PanicLevel, FatalLevel, ErrorLevel, WarnLevel}
   \<and> embedCollor 4294967295 = 12434877"
  using C9_embedCollor_total [of InfoLevel] C9_embedCollor_total [of 4294967295]
  by (simp add: Level_defs)

subsection \<open>The synchronous part of Fire\<close>

text \<open>
  C2. \<open>Fire\<close> returns an error exactly when the hook's URL is empty. Then the heap is
  the one it was called with (nothing has been snapshotted) and no goroutine has been
  launched. With any other URL it returns nil and has launched the goroutine, whatever
  the entry holds.
\<close>

theorem C2_Fire_error:
  "(fst (Fire h entry s) \<noteq> None) = (HookUrl h = [])
   \<and> (HookUrl h = [] \<longrightarrow> Fire h entry s = (Some ''Discord webhook url is empty'', s, None))
   \<and> (HookUrl h \<noteq> [] \<longrightarrow> fst (Fire h entry s) = None \<and> snd (snd (Fire h entry s)) \<noteq> None)"
  by (simp add: Fire_def split: prod.splits)

theorem C2_Fire_error_witness:
  "HookUrl (NewHook [] []) = []
   \<and> Fire (NewHook [] []) (example_entry (Some (DynPayload live_payload)) ''hello'')
        (example_heap ''text/plain'' (Reader ''abc'' None))
      = (Some ''Discord webhook url is empty'', example_heap ''text/plain'' (Reader ''abc'' None), None)
   \<and> HookUrl example_hook \<noteq> []
   \<and> fst (Fire example_hook (example_entry (Some (DynPayload live_payload)) ''hello'')
            (example_heap ''text/plain'' (Reader ''abc'' None))) = None
   \<and> snd (snd (Fire example_hook (example_entry (Some (DynPayload live_payload)) ''hello'')
                 (example_heap ''text/plain'' (Reader ''abc'' None)))) \<noteq> None"
  using C2_Fire_error [of "NewHook [] []" "example_entry (Some (DynPayload live_payload)) ''hello''"
                          "example_heap ''text/plain'' (Reader ''abc'' None)"]
        C2_Fire_error [of example_hook "example_entry (Some (DynPayload live_payload)) ''hello''"
                          "example_heap ''text/plain'' (Reader ''abc'' None)"]
  by (simp add: example_hook_def NewHook_def)

text \<open>
  The snapshot of a live request with a body: the original request and the clone each
  get a new reader that yields what \<^verbatim>\<open>io.ReadAll\<close> has returned, whether the stream
  ended with EOF or with an error.
\<close>

lemma snapshot_live:
  assumes req: "Data entry REQUEST_FIELD_KEY = Some (DynPayload valReq)"
      and p: "Request valReq = Some p"
      and alloc: "p < next_request s"
      and b: "http_Body (requests s p) = Some b"
      and rd: "readers s b = Reader B e"
  shows "\<exists>s' drp. snapshot entry s = (Some drp, s')
           \<and> Request drp = Some (next_request s)
           \<and> http_Body (requests s' p) = Some (next_reader s)
           \<and> http_Body (requests s' (next_request s)) = Some (Suc (next_reader s))
           \<and> readers s' (next_reader s) = Reader B None
           \<and> readers s' (Suc (next_reader s)) = Reader B None"
  using assms
  by (simp add: snapshot_def Clone_def io_ReadAll_def bytes_NewBuffer_def set_Body_def Let_def)

lemma Fire_live:
  assumes url: "HookUrl h \<noteq> []"
      and req: "Data entry REQUEST_FIELD_KEY = Some (DynPayload valReq)"
      and p: "Request valReq = Some p"
      and alloc: "p < next_request s"
      and b: "http_Body (requests s p) = Some b"
      and rd: "readers s b = Reader B e"
  shows "\<exists>s' drp c b1 b2.
           Fire h entry s = (None, s', Some (Some drp))
         \<and> Request drp = Some c \<and> c \<noteq> p
         \<and> http_Body (requests s' p) = Some b1
         \<and> http_Body (requests s' c) = Some b2
         \<and> b1 \<noteq> b2 \<and> next_reader s \<le> b1 \<and> next_reader s \<le> b2
         \<and> fst (io_ReadAll b1 s') = (B, None)
         \<and> fst (io_ReadAll b2 s') = (B, None)
         \<and> fst (io_ReadAll b2 (snd (io_ReadAll b1 s'))) = (B, None)
         \<and> fst (io_ReadAll b1 (snd (io_ReadAll b2 s'))) = (B, None)"
proof -
  from snapshot_live [OF req p alloc b rd]
  obtain s' drp where snap: "snapshot entry s = (Some drp, s')"
    and c: "Request drp = Some (next_request s)"
    and b1: "http_Body (requests s' p) = Some (next_reader s)"
    and b2: "http_Body (requests s' (next_request s)) = Some (Suc (next_reader s))"
    and r1: "readers s' (next_reader s) = Reader B None"
    and r2: "readers s' (Suc (next_reader s)) = Reader B None"
    by blast
  have fire: "Fire h entry s = (None, s', Some (Some drp))"
    using url snap by (simp add: Fire_def)
  have reads: "fst (io_ReadAll (next_reader s) s') = (B, None)"
      "fst (io_ReadAll (Suc (next_reader s)) s') = (B, None)"
      "fst (io_ReadAll (Suc (next_reader s)) (snd (io_ReadAll (next_reader s) s'))) = (B, None)"
      "fst (io_ReadAll (next_reader s) (snd (io_ReadAll (Suc (next_reader s)) s'))) = (B, None)"
    using r1 r2 by (simp_all add: io_ReadAll_def)
  from alloc have "next_request s \<noteq> p" by simp
  with fire c b1 b2 reads show ?thesis by force
qed

text \<open>
  C3. The payload holds a live request, an object of the heap, whose body stream
  yields the bytes \<open>B\<close> and ends with EOF. When \<open>Fire\<close> has returned, the body of the
  original request is a new reader \<open>b1\<close> and the body of the snapshot's request, a
  different object, is another new reader \<open>b2\<close>. Reading either of them to its end
  gives exactly \<open>B\<close>, also after the other has been read to its end.
\<close>

theorem C3_body_restored:
  assumes "HookUrl h \<noteq> []"
      and "Data entry REQUEST_FIELD_KEY = Some (DynPayload valReq)"
      and "Request valReq = Some p"
      and "p < next_request s"
      and "http_Body (requests s p) = Some b"
      and "readers s b = Reader B None"
  shows "\<exists>s' drp c b1 b2.
           Fire h entry s = (None, s', Some (Some drp))
         \<and> Request drp = Some c \<and> c \<noteq> p
         \<and> http_Body (requests s' p) = Some b1
         \<and> http_Body (requests s' c) = Some b2
         \<and> b1 \<noteq> b2 \<and> next_reader s \<le> b1 \<and> next_reader s \<le> b2
         \<and> fst (io_ReadAll b1 s') = (B, None)
         \<and> fst (io_ReadAll b2 s') = (B, None)
         \<and> fst (io_ReadAll b2 (snd (io_ReadAll b1 s'))) = (B, None)
         \<and> fst (io_ReadAll b1 (snd (io_ReadAll b2 s'))) = (B, None)"
  using assms by (rule Fire_live)

theorem C3_body_restored_witness:
  "HookUrl example_hook \<noteq> []
   \<and> Data (example_entry (Some (DynPayload live_payload)) ''hello'') REQUEST_FIELD_KEY
       = Some (DynPayload live_payload)
   \<and> Request live_payload = Some 0
   \<and> 0 < next_request (example_heap ''text/plain'' (Reader ''abc'' None))
   \<and> http_Body (requests (example_heap ''text/plain'' (Reader ''abc'' None)) 0) = Some 0
   \<and> readers (example_heap ''text/plain'' (Reader ''abc'' None)) 0 = Reader ''abc'' None
   \<and> (\<exists>s' drp c b1 b2.
         Fire example_hook (example_entry (Some (DynPayload live_payload)) ''hello'')
           (example_heap ''text/plain'' (Reader ''abc'' None)) = (None, s', Some (Some drp))
       \<and> Request drp = Some c \<and> c \<noteq> 0
       \<and> http_Body (requests s' 0) = Some b1
       \<and> http_Body (requests s' c) = Some b2
       \<and> b1 \<noteq> b2
       \<and> fst (io_ReadAll b1 s') = (''abc'', None)
       \<and> fst (io_ReadAll b2 (snd (io_ReadAll b1 s'))) = (''abc'', None))"
proof -
  have h: "HookUrl example_hook \<noteq> []"
    "Data (example_entry (Some (DynPayload live_payload)) ''hello'') REQUEST_FIELD_KEY
       = Some (DynPayload live_payload)"
    "Request live_payload = Some 0"
    "0 < next_request (example_heap ''text/plain'' (Reader ''abc'' None))"
    "http_Body (requests (example_heap ''text/plain'' (Reader ''abc'' None)) 0) = Some 0"
    "readers (example_heap ''text/plain'' (Reader ''abc'' None)) 0 = Reader ''abc'' None"
    by (simp_all add: example_defs)
  from C3_body_restored [OF h] h show ?thesis by blast
qed

text \<open>
  C8, as the code has it. The body stream of the live request yields the bytes \<open>B\<close> and
  then fails. \<open>Fire\<close> returns nil and launches the goroutine; the readers it gives to
  the original request and to the snapshot both yield exactly \<open>B\<close>, the bytes read
  before the failure, and end without an error. They yield no bytes only when the
  stream failed before its first byte.
\<close>

theorem C8_read_error_not_propagated:
  assumes "HookUrl h \<noteq> []"
      and "Data entry REQUEST_FIELD_KEY = Some (DynPayload valReq)"
      and "Request valReq = Some p"
      and "p < next_request s"
      and "http_Body (requests s p) = Some b"
      and "readers s b = Reader B (Some e)"
  shows "\<exists>s' drp c b1 b2.
           Fire h entry s = (None, s', Some (Some drp))
         \<and> Request drp = Some c
         \<and> http_Body (requests s' p) = Some b1
         \<and> http_Body (requests s' c) = Some b2
         \<and> fst (io_ReadAll b1 s') = (B, None)
         \<and> fst (io_ReadAll b2 s') = (B, None)"
  using Fire_live [OF assms] by blast

theorem C8_read_error_not_propagated_witness:
  "HookUrl example_hook \<noteq> []
   \<and> Data (example_entry (Some (DynPayload live_payload)) ''hello'') REQUEST_FIELD_KEY
       = Some (DynPayload live_payload)
   \<and> Request live_payload = Some 0
   \<and> 0 < next_request (example_heap ''text/plain'' (Reader [] (Some ''connection reset'')))
   \<and> http_Body (requests (example_heap ''text/plain'' (Reader [] (Some ''connection reset''))) 0) = Some 0
   \<and> readers (example_heap ''text/plain'' (Reader [] (Some ''connection reset''))) 0
       = Reader [] (Some ''connection reset'')
   \<and> (\<exists>s' drp c b1 b2.
         Fire example_hook (example_entry (Some (DynPayload live_payload)) ''hello'')
           (example_heap ''text/plain'' (Reader [] (Some ''connection reset'')))
           = (None, s', Some (Some drp))
       \<and> Request drp = Some c
       \<and> http_Body (requests s' 0) = Some b1
       \<and> http_Body (requests s' c) = Some b2
       \<and> fst (io_ReadAll b1 s') = ([], None)
       \<and> fst (io_ReadAll b2 s') = ([], None))"
proof -
  have h: "HookUrl example_hook \<noteq> []"
    "Data (example_entry (Some (DynPayload live_payload)) ''hello'') REQUEST_FIELD_KEY
       = Some (DynPayload live_payload)"
    "Request live_payload = Some 0"
    "0 < next_request (example_heap ''text/plain'' (Reader [] (Some ''connection reset'')))"
    "http_Body (requests (example_heap ''text/plain'' (Reader [] (Some ''connection reset''))) 0) = Some 0"
    "readers (example_heap ''text/plain'' (Reader [] (Some ''connection reset''))) 0
       = Reader [] (Some ''connection reset'')"
    by (simp_all add: example_defs)
  from C8_read_error_not_propagated [OF h] h show ?thesis by blast
qed

text \<open>
  C8 as the spec states it does not hold: a stream that yields "abc" and then fails
  leaves both requests with a body of three bytes, not with an empty one.
\<close>

theorem C8_partial_read_counterexample:
  "readers (example_heap ''text/plain'' (Reader ''abc'' (Some ''unexpected EOF''))) 0
     = Reader ''abc'' (Some ''unexpected EOF'')
   \<and> fst (Fire example_hook (example_entry (Some (DynPayload live_payload)) ''hello'')
            (example_heap ''text/plain'' (Reader ''abc'' (Some ''unexpected EOF'')))) = None
   \<and> http_Body (requests (fst (snd (Fire example_hook
          (example_entry (Some (DynPayload live_payload)) ''hello'')
          (example_heap ''text/plain'' (Reader ''abc'' (Some ''unexpected EOF'')))))) 0) = Some 1
   \<and> fst (io_ReadAll 1 (fst (snd (Fire example_hook
          (example_entry (Some (DynPayload live_payload)) ''hello'')
          (example_heap ''text/plain'' (Reader ''abc'' (Some ''unexpected EOF''))))))) = (''abc'', None)
   \<and> http_Body (requests (fst (snd (Fire example_hook
          (example_entry (Some (DynPayload live_payload)) ''hello'')
          (example_heap ''text/plain'' (Reader ''abc'' (Some ''unexpected EOF'')))))) 1) = Some 2
   \<and> fst (io_ReadAll 2 (fst (snd (Fire example_hook
          (example_entry (Some (DynPayload live_payload)) ''hello'')
          (example_heap ''text/plain'' (Reader ''abc'' (Some ''unexpected EOF''))))))) = (''abc'', None)"
  by (simp add: example_defs Fire_def snapshot_def Clone_def io_ReadAll_def bytes_NewBuffer_def
        set_Body_def Let_def)

lemma snapshot_no_payload:
  assumes "\<forall>valReq. Data entry REQUEST_FIELD_KEY \<noteq> Some (DynPayload valReq)"
  shows "snapshot entry s = (None, s)"
  using assms by (simp add: snapshot_def split: option.splits dyn.splits)

text \<open>
  C10. The entry has no "request" field, or the field holds a value whose dynamic type
  is not the payload struct. \<open>Fire\<close> returns nil, changes nothing on the heap and
  launches the goroutine with a nil payload; the goroutine renders no request fields
  and delivers the document whose "REQUEST PAYLOAD" section has the empty field
  list.
\<close>

theorem C10_no_payload:
  assumes "HookUrl h \<noteq> []"
      and "\<forall>valReq. Data entry REQUEST_FIELD_KEY \<noteq> Some (DynPayload valReq)"
  shows "Fire h entry s = (None, s, Some None)
       \<and> request_fields L s None = Inr []
       \<and> goroutine L h entry s None = deliver L h entry (document L entry [])
       \<and> document L entry [] =
           JObject [(''username'', JString ''Golang''), (''embeds'', JArray (embeds L entry []))]
       \<and> embeds L entry [] ! 1 =
           JObject [(''title'', JString ''REQUEST PAYLOAD''), (''fields'', JArray []),
                    (''color'', JNumber (embedCollor (Level entry)))]"
  using assms snapshot_no_payload [of entry s]
  by (simp add: Fire_def request_fields_def goroutine_def document_def embeds_def)

theorem C10_no_payload_witness:
  "HookUrl example_hook \<noteq> []
   \<and> (\<forall>valReq. Data (example_entry None ''hello'') REQUEST_FIELD_KEY \<noteq> Some (DynPayload valReq))
   \<and> (\<forall>valReq. Data (example_entry (Some (DynPayloadPtr live_payload)) ''hello'') REQUEST_FIELD_KEY
          \<noteq> Some (DynPayload valReq))
   \<and> (\<forall>valReq. Data (example_entry (Some (DynString ''GET /users'')) ''hello'') REQUEST_FIELD_KEY
          \<noteq> Some (DynPayload valReq))
   \<and> Fire example_hook (example_entry None ''hello'') (example_heap ''text/plain'' (Reader ''abc'' None))
       = (None, example_heap ''text/plain'' (Reader ''abc'' None), Some None)
   \<and> Fire example_hook (example_entry (Some (DynPayloadPtr live_payload)) ''hello'')
         (example_heap ''text/plain'' (Reader ''abc'' None))
       = (None, example_heap ''text/plain'' (Reader ''abc'' None), Some None)
   \<and> Fire example_hook (example_entry (Some (DynString ''GET /users'')) ''hello'')
         (example_heap ''text/plain'' (Reader ''abc'' None))
       = (None, example_heap ''text/plain'' (Reader ''abc'' None), Some None)
   \<and> request_fields example_stdlib (example_heap ''text/plain'' (Reader ''abc'' None)) None = Inr []"
proof -
  have u: "HookUrl example_hook \<noteq> []"
    by (simp add: example_defs)
  have a: "\<forall>valReq. Data (example_entry None ''hello'') REQUEST_FIELD_KEY \<noteq> Some (DynPayload valReq)"
    by (simp add: example_defs)
  have b: "\<forall>valReq. Data (example_entry (Some (DynPayloadPtr live_payload)) ''hello'') REQUEST_FIELD_KEY
          \<noteq> Some (DynPayload valReq)"
    by (simp add: example_defs)
  have c: "\<forall>valReq. Data (example_entry (Some (DynString ''GET /users'')) ''hello'') REQUEST_FIELD_KEY
          \<noteq> Some (DynPayload valReq)"
    by (simp add: example_defs)
  from C10_no_payload [OF u a, of "example_heap ''text/plain'' (Reader ''abc'' None)" example_stdlib]
       C10_no_payload [OF u b, of "example_heap ''text/plain'' (Reader ''abc'' None)" example_stdlib]
       C10_no_payload [OF u c, of "example_heap ''text/plain'' (Reader ''abc'' None)" example_stdlib]
       u a b c
  show ?thesis by blast
qed

subsection \<open>The body renderer\<close>

text \<open>
  For a live request the goroutine renders the method, the URL and what the
  \<^verbatim>\<open>switch\<close> on the content type appends, unless the \<^verbatim>\<open>switch\<close> panics.
\<close>

lemma request_fields_live:
  assumes "Request d = Some c"
  shows "request_fields L s (Some d) =
           (case body_fields L (requests s c) (snapshot_body s c) of
              Inl p \<Rightarrow> Inl p
            | Inr bf \<Rightarrow>
                Inr ([field ''Method'' (''```'' @ http_Method (requests s c) @ '' ```''),
                      field ''URL'' (''```'' @ http_URL (requests s c) @ '' ```'')] @ bf))"
  using assms
  by (simp add: request_fields_def snapshot_body_def Let_def split: option.splits)

text \<open>The example heap: its content type, its body and its request.\<close>

lemma example_Content_Type:
  "Header_Get (http_Header (requests (example_heap ct rd) c)) ''Content-Type'' = ct"
  by (simp add: example_heap_def Header_Get_def)

lemma example_snapshot_body:
  "snapshot_body (example_heap ct rd) c = pending rd"
  by (simp add: example_heap_def snapshot_body_def io_ReadAll_def)

lemma example_request:
  "http_Method (requests (example_heap ct rd) c) = ''POST''"
  "http_URL (requests (example_heap ct rd) c) = ''https://api.example.com/users''"
  by (simp_all add: example_heap_def)

lemma ParseQuery_example: "ParseQuery example_stdlib = url_ParseQuery"
  by (simp add: example_stdlib_def)

lemma MarshalIndent_example: "MarshalIndent example_stdlib j = Inr (json_indent j 0)"
  by (simp add: example_stdlib_def)

lemma ParseQuery_two_pairs:
  "url_ParseQuery ''a=1&b=2'' = ([(''a'', [''1'']), (''b'', [''2''])], None)"
  by (simp add: url_ParseQuery_def)

lemma ParseQuery_bad_escape: "url_ParseQuery ''a=%zz'' = ([], Some ''invalid URL escape'')"
  by (simp add: url_ParseQuery_def ishex_def)

text \<open>
  C7. The content type of the snapshot's request contains none of "application/json",
  "multipart/form-data" and "application/x-www-form-urlencoded" (a missing header
  reads as the empty string). Then the fields are the method, the URL and, exactly
  when the body is not empty and at most 1024 bytes long, a "Body" field with the
  raw bytes between the fences. A longer body and an empty body give no "Body"
  field, and nothing fails.
\<close>

theorem C7_default_raw_body:
  assumes "Request d = Some c"
      and "\<not> strings_Contains (Header_Get (http_Header (requests s c)) ''Content-Type'') ''application/json''"
      and "\<not> strings_Contains (Header_Get (http_Header (requests s c)) ''Content-Type'') ''multipart/form-data''"
      and "\<not> strings_Contains (Header_Get (http_Header (requests s c)) ''Content-Type'')
              ''application/x-www-form-urlencoded''"
  shows "request_fields L s (Some d) =
           Inr ([field ''Method'' (''```'' @ http_Method (requests s c) @ '' ```''),
                 field ''URL'' (''```'' @ http_URL (requests s c) @ '' ```'')]
                @ (if 0 < length (snapshot_body s c) \<and> length (snapshot_body s c) \<le> 1024
                   then [field ''Body'' (''```'' @ snapshot_body s c @ '' ```'')]
                   else []))"
  using assms(2-4)
  by (simp add: request_fields_live [OF assms(1)] body_fields_def)

theorem C7_default_raw_body_witness:
  "Request live_payload = Some 0
   \<and> \<not> strings_Contains ''text/plain'' ''application/json''
   \<and> \<not> strings_Contains ''text/plain'' ''multipart/form-data''
   \<and> \<not> strings_Contains ''text/plain'' ''application/x-www-form-urlencoded''
   \<and> request_fields example_stdlib (example_heap ''text/plain'' (Reader ''abc'' None)) (Some live_payload)
       = Inr [field ''Method'' ''```POST ```'',
              field ''URL'' ''```https://api.example.com/users ```'',
              field ''Body'' ''```abc ```'']
   \<and> request_fields example_stdlib (example_heap ''text/plain'' (Reader (replicate 1025 CHR ''x'') None))
         (Some live_payload)
       = Inr [field ''Method'' ''```POST ```'',
              field ''URL'' ''```https://api.example.com/users ```'']
   \<and> request_fields example_stdlib (example_heap [] (Reader [] None)) (Some live_payload)
       = Inr [field ''Method'' ''```POST ```'',
              field ''URL'' ''```https://api.example.com/users ```'']"
proof -
  have p: "Request live_payload = Some 0"
    by (simp add: live_payload_def)
  have a: "\<not> strings_Contains ''text/plain'' ''application/json''"
    "\<not> strings_Contains ''text/plain'' ''multipart/form-data''"
    "\<not> strings_Contains ''text/plain'' ''application/x-www-form-urlencoded''"
    by simp_all
  have e: "\<not> strings_Contains [] ''application/json''"
    "\<not> strings_Contains [] ''multipart/form-data''"
    "\<not> strings_Contains [] ''application/x-www-form-urlencoded''"
    by simp_all
  have m: "http_Method (requests (example_heap ct rd) 0) = ''POST''"
    "http_URL (requests (example_heap ct rd) 0) = ''https://api.example.com/users''" for ct rd
    by (simp_all add: example_heap_def)
  from C7_default_raw_body [OF p, of "example_heap ''text/plain'' (Reader ''abc'' None)" example_stdlib]
       C7_default_raw_body [OF p, of "example_heap ''text/plain'' (Reader (replicate 1025 CHR ''x'') None)" example_stdlib]
       C7_default_raw_body [OF p, of "example_heap [] (Reader [] None)" example_stdlib]
       p a e
  show ?thesis
    by (simp add: example_Content_Type example_snapshot_body m)
qed

text \<open>
  The parsed query as a JSON object: every key of the query with the list of its
  values.
\<close>

lemma map_of_urlencoded_loop:
  "distinct (map fst parsedForm) \<Longrightarrow>
   map_of (urlencoded_loop parsedForm formData) k =
     (case map_of parsedForm k of
        Some values \<Rightarrow> Some (JArray (map JString values))
      | None \<Rightarrow> map_of formData k)"
proof (induction parsedForm formData rule: urlencoded_loop.induct)
  case (1 formData)
  then show ?case by simp
next
  case (2 key "values" rest formData)
  from "2.prems" have d: "distinct (map fst rest)" and n: "map_of rest key = None"
    by (simp_all add: map_of_eq_None_iff)
  have "map_of (urlencoded_loop rest (AList.update key (JArray (map JString values)) formData)) k =
          (case map_of rest k of
             Some vs \<Rightarrow> Some (JArray (map JString vs))
           | None \<Rightarrow> map_of (AList.update key (JArray (map JString values)) formData) k)"
    using "2.IH" [OF d] .
  then show ?case
    using n by (cases "k = key") (simp_all add: update_conv' split: option.splits)
qed

text \<open>
  C6, as the code has it. The content type of the snapshot's request contains
  "application/x-www-form-urlencoded" and neither "application/json" nor
  "multipart/form-data", which the \<^verbatim>\<open>switch\<close> tests first. With an empty body there
  is no "Body" field. When \<^verbatim>\<open>url.ParseQuery\<close> returns an error the "Body" field is
  the raw body between the fences. When it succeeds the "Body" field is the indented
  JSON text of the object that maps every key to the list of its values.
\<close>

theorem C6_urlencoded_body:
  assumes "Request d = Some c"
      and "strings_Contains (Header_Get (http_Header (requests s c)) ''Content-Type'')
              ''application/x-www-form-urlencoded''"
      and "\<not> strings_Contains (Header_Get (http_Header (requests s c)) ''Content-Type'') ''application/json''"
      and "\<not> strings_Contains (Header_Get (http_Header (requests s c)) ''Content-Type'') ''multipart/form-data''"
  shows "(snapshot_body s c = [] \<longrightarrow>
            request_fields L s (Some d) =
              Inr [field ''Method'' (''```'' @ http_Method (requests s c) @ '' ```''),
                   field ''URL'' (''```'' @ http_URL (requests s c) @ '' ```'')])
       \<and> (snapshot_body s c \<noteq> [] \<and> snd (ParseQuery L (snapshot_body s c)) \<noteq> None \<longrightarrow>
            request_fields L s (Some d) =
              Inr [field ''Method'' (''```'' @ http_Method (requests s c) @ '' ```''),
                   field ''URL'' (''```'' @ http_URL (requests s c) @ '' ```''),
                   field ''Body'' (''```'' @ snapshot_body s c @ '' ```'')])
       \<and> (snapshot_body s c \<noteq> [] \<and> ParseQuery L (snapshot_body s c) = (parsedForm, None)
            \<and> MarshalIndent L (JObject (urlencoded_loop parsedForm [])) = Inr jsonString \<longrightarrow>
            request_fields L s (Some d) =
              Inr [field ''Method'' (''```'' @ http_Method (requests s c) @ '' ```''),
                   field ''URL'' (''```'' @ http_URL (requests s c) @ '' ```''),
                   field ''Body'' (''```'' @ jsonString @ ''```'')])
       \<and> (distinct (map fst parsedForm) \<longrightarrow>
            map_of (urlencoded_loop parsedForm []) k =
              map_option (\<lambda>values. JArray (map JString values)) (map_of parsedForm k))"
proof -
  have "distinct (map fst parsedForm) \<longrightarrow>
          map_of (urlencoded_loop parsedForm []) k =
            map_option (\<lambda>values. JArray (map JString values)) (map_of parsedForm k)"
    by (simp add: map_of_urlencoded_loop split: option.splits)
  moreover have "snapshot_body s c = [] \<longrightarrow>
            request_fields L s (Some d) =
              Inr [field ''Method'' (''```'' @ http_Method (requests s c) @ '' ```''),
                   field ''URL'' (''```'' @ http_URL (requests s c) @ '' ```'')]"
    using assms(2-4) by (simp add: request_fields_live [OF assms(1)] body_fields_def)
  moreover have "snapshot_body s c \<noteq> [] \<and> snd (ParseQuery L (snapshot_body s c)) \<noteq> None \<longrightarrow>
            request_fields L s (Some d) =
              Inr [field ''Method'' (''```'' @ http_Method (requests s c) @ '' ```''),
                   field ''URL'' (''```'' @ http_URL (requests s c) @ '' ```''),
                   field ''Body'' (''```'' @ snapshot_body s c @ '' ```'')]"
    using assms(2-4)
    by (auto simp: request_fields_live [OF assms(1)] body_fields_def split: prod.splits option.splits)
  moreover have "snapshot_body s c \<noteq> [] \<and> ParseQuery L (snapshot_body s c) = (parsedForm, None)
            \<and> MarshalIndent L (JObject (urlencoded_loop parsedForm [])) = Inr jsonString \<longrightarrow>
            request_fields L s (Some d) =
              Inr [field ''Method'' (''```'' @ http_Method (requests s c) @ '' ```''),
                   field ''URL'' (''```'' @ http_URL (requests s c) @ '' ```''),
                   field ''Body'' (''```'' @ jsonString @ ''```'')]"
    using assms(2-4)
    by (simp add: request_fields_live [OF assms(1)] body_fields_def)
  ultimately show ?thesis by blast
qed

theorem C6_urlencoded_body_witness:
  "Request live_payload = Some 0
   \<and> strings_Contains ''application/x-www-form-urlencoded'' ''application/x-www-form-urlencoded''
   \<and> \<not> strings_Contains ''application/x-www-form-urlencoded'' ''application/json''
   \<and> \<not> strings_Contains ''application/x-www-form-urlencoded'' ''multipart/form-data''
   \<and> request_fields example_stdlib
         (example_heap ''application/x-www-form-urlencoded'' (Reader [] None)) (Some live_payload)
       = Inr [field ''Method'' ''```POST ```'',
              field ''URL'' ''```https://api.example.com/users ```'']
   \<and> snd (ParseQuery example_stdlib ''a=%zz'') \<noteq> None
   \<and> request_fields example_stdlib
         (example_heap ''application/x-www-form-urlencoded'' (Reader ''a=%zz'' None)) (Some live_payload)
       = Inr [field ''Method'' ''```POST ```'',
              field ''URL'' ''```https://api.example.com/users ```'',
              field ''Body'' ''```a=%zz ```'']
   \<and> ParseQuery example_stdlib ''a=1&b=2'' = ([(''a'', [''1'']), (''b'', [''2''])], None)
   \<and> distinct (map fst [(''a'', [''1'']), (''b'', [''2''])])
   \<and> urlencoded_loop [(''a'', [''1'']), (''b'', [''2''])] []
       = [(''a'', JArray [JString ''1'']), (''b'', JArray [JString ''2''])]
   \<and> request_fields example_stdlib
         (example_heap ''application/x-www-form-urlencoded'' (Reader ''a=1&b=2'' None)) (Some live_payload)
       = Inr [field ''Method'' ''```POST ```'',
              field ''URL'' ''```https://api.example.com/users ```'',
              field ''Body''
                (''```''
                 @ json_indent (JObject [(''a'', JArray [JString ''1'']), (''b'', JArray [JString ''2''])]) 0
                 @ ''```'')]"
proof -
  have p: "Request live_payload = Some 0"
    by (simp add: live_payload_def)
  have ct: "strings_Contains ''application/x-www-form-urlencoded'' ''application/x-www-form-urlencoded''"
    "\<not> strings_Contains ''application/x-www-form-urlencoded'' ''application/json''"
    "\<not> strings_Contains ''application/x-www-form-urlencoded'' ''multipart/form-data''"
    by simp_all
  have m: "http_Method (requests (example_heap ct rd) 0) = ''POST''"
    "http_URL (requests (example_heap ct rd) 0) = ''https://api.example.com/users''" for ct rd
    by (simp_all add: example_heap_def)
  have l: "urlencoded_loop [(''a'', [''1'']), (''b'', [''2''])] []
       = [(''a'', JArray [JString ''1'']), (''b'', JArray [JString ''2''])]"
    by simp
  have q: "snd (ParseQuery example_stdlib ''a=%zz'') \<noteq> None"
    "ParseQuery example_stdlib ''a=1&b=2'' = ([(''a'', [''1'']), (''b'', [''2''])], None)"
    by (simp_all add: ParseQuery_example ParseQuery_two_pairs ParseQuery_bad_escape)
  have d: "distinct (map fst [(''a'', [''1'']), (''b'', [''2''])])"
    by simp
  from C6_urlencoded_body [OF p, of "example_heap ''application/x-www-form-urlencoded'' (Reader [] None)"
         example_stdlib]
       C6_urlencoded_body [OF p, of "example_heap ''application/x-www-form-urlencoded'' (Reader ''a=%zz'' None)"
         example_stdlib]
       C6_urlencoded_body [OF p, of "example_heap ''application/x-www-form-urlencoded'' (Reader ''a=1&b=2'' None)"
         example_stdlib "[(''a'', [''1'']), (''b'', [''2''])]"
         "json_indent (JObject [(''a'', JArray [JString ''1'']), (''b'', JArray [JString ''2''])]) 0"]
       p ct q d l
  show ?thesis
    by (simp add: example_Content_Type example_snapshot_body m MarshalIndent_example)
qed

text \<open>
  C6 as the spec states it does not hold for every content type that contains
  "application/x-www-form-urlencoded": one that contains "application/json" as well is
  rendered by the first case of the \<^verbatim>\<open>switch\<close>, and the body "a=1&b=2" comes out
  raw, not as JSON.
\<close>

theorem C6_precedence_counterexample:
  "strings_Contains ''application/x-www-form-urlencoded, application/json''
     ''application/x-www-form-urlencoded''
   \<and> snapshot_body (example_heap ''application/x-www-form-urlencoded, application/json''
                      (Reader ''a=1&b=2'' None)) 0 = ''a=1&b=2''
   \<and> ParseQuery example_stdlib ''a=1&b=2'' = ([(''a'', [''1'']), (''b'', [''2''])], None)
   \<and> request_fields example_stdlib
         (example_heap ''application/x-www-form-urlencoded, application/json''
            (Reader ''a=1&b=2'' None))
         (Some live_payload)
       = Inr [field ''Method'' ''```POST ```'',
              field ''URL'' ''```https://api.example.com/users ```'',
              field ''Body'' ''```a=1&b=2 ```'']"
  by (simp add: ParseQuery_example ParseQuery_two_pairs request_fields_live live_payload_def body_fields_def
        example_Content_Type example_snapshot_body)
     (simp add: example_heap_def)

text \<open>
  C4 at the input where the code departs from it. The content type contains
  "multipart/form-data" (and not "application/json"), and
  \<^verbatim>\<open>ParseMultipartForm\<close> returns \<^verbatim>\<open>http.ErrNotMultipart\<close>, leaving
  \<^verbatim>\<open>MultipartForm\<close> nil: the media type of the header is not multipart/form-data.
  The code takes the branch of a successful parse, reads \<^verbatim>\<open>MultipartForm.Value\<close>
  through the nil pointer, and the goroutine panics: no "Body" field is rendered and
  no document is composed or delivered.
\<close>

theorem C4_not_multipart_panics:
  assumes "Request d = Some c"
      and "strings_Contains (Header_Get (http_Header (requests s c)) ''Content-Type'') ''multipart/form-data''"
      and "\<not> strings_Contains (Header_Get (http_Header (requests s c)) ''Content-Type'') ''application/json''"
      and "ParseMultipartForm L (requests s c) (snapshot_body s c) = (Some ErrNotMultipart, None)"
  shows "goroutine L h entry s (Some d) = Panic ''invalid memory address or nil pointer dereference''"
  using assms(2-4)
  by (simp add: goroutine_def request_fields_live [OF assms(1)] body_fields_def)

theorem C4_not_multipart_panics_witness:
  "Request live_payload = Some 0
   \<and> strings_Contains ''multipart/form-data-v2'' ''multipart/form-data''
   \<and> \<not> strings_Contains ''multipart/form-data-v2'' ''application/json''
   \<and> ParseMultipartForm example_stdlib
         (requests (example_heap ''multipart/form-data-v2'' (Reader ''abc'' None)) 0) ''abc''
       = (Some ErrNotMultipart, None)
   \<and> goroutine example_stdlib example_hook (example_entry (Some (DynPayload live_payload)) ''hello'')
         (example_heap ''multipart/form-data-v2'' (Reader ''abc'' None)) (Some live_payload)
       = Panic ''invalid memory address or nil pointer dereference''"
proof -
  have p: "Request live_payload = Some 0"
    by (simp add: live_payload_def)
  have ct: "strings_Contains ''multipart/form-data-v2'' ''multipart/form-data''"
    "\<not> strings_Contains ''multipart/form-data-v2'' ''application/json''"
    by simp_all
  have f: "ParseMultipartForm example_stdlib
         (requests (example_heap ''multipart/form-data-v2'' (Reader ''abc'' None)) 0) ''abc''
       = (Some ErrNotMultipart, None)"
    by (simp add: example_stdlib_def example_heap_def Header_Get_def)
  from C4_not_multipart_panics [OF p, of "example_heap ''multipart/form-data-v2'' (Reader ''abc'' None)"
         example_stdlib example_hook "example_entry (Some (DynPayload live_payload)) ''hello''"]
       p ct f
  show ?thesis
    by (simp add: example_Content_Type example_snapshot_body)
qed

text \<open>
  Every other error of \<^verbatim>\<open>ParseMultipartForm\<close> is rendered as the "Body" field, and
  the document is delivered with it.
\<close>

lemma multipart_error_rendered:
  assumes "Request d = Some c"
      and "strings_Contains (Header_Get (http_Header (requests s c)) ''Content-Type'') ''multipart/form-data''"
      and "\<not> strings_Contains (Header_Get (http_Header (requests s c)) ''Content-Type'') ''application/json''"
      and "ParseMultipartForm L (requests s c) (snapshot_body s c) = (Some (ErrOther msg), form)"
  shows "request_fields L s (Some d) =
           Inr [field ''Method'' (''```'' @ http_Method (requests s c) @ '' ```''),
                field ''URL'' (''```'' @ http_URL (requests s c) @ '' ```''),
                field ''Body'' (''```'' @ msg @ ''```'')]"
  using assms(2-4)
  by (simp add: request_fields_live [OF assms(1)] body_fields_def)

text \<open>
  A parsed form whose keys all have a value is rendered as the indented JSON of its
  fields and its files, each of the two keys left out when it has nothing to hold.
\<close>

lemma multipart_form_rendered:
  assumes "Request d = Some c"
      and "strings_Contains (Header_Get (http_Header (requests s c)) ''Content-Type'') ''multipart/form-data''"
      and "\<not> strings_Contains (Header_Get (http_Header (requests s c)) ''Content-Type'') ''application/json''"
      and "ParseMultipartForm L (requests s c) (snapshot_body s c) = (None, Some form)"
      and "formData_loop (Value form) [] = Inr formData"
      and "fileInfo_loop L (File form) [] = Inr fileInfo"
      and "MarshalIndent L
             (JObject ((if formData \<noteq> [] then [(''form_fields'', JObject formData)] else [])
                       @ (if fileInfo \<noteq> [] then [(''uploaded_files'', JObject fileInfo)] else [])))
           = Inr jsonString"
  shows "request_fields L s (Some d) =
           Inr [field ''Method'' (''```'' @ http_Method (requests s c) @ '' ```''),
                field ''URL'' (''```'' @ http_URL (requests s c) @ '' ```''),
                field ''Body'' (''```'' @ jsonString @ ''```'')]"
  using assms(2-7)
  by (simp add: request_fields_live [OF assms(1)] body_fields_def)

lemma multipart_missing_boundary_example:
  "request_fields example_stdlib (example_heap ''multipart/form-data'' (Reader ''abc'' None))
     (Some live_payload)
   = Inr [field ''Method'' ''```POST ```'',
          field ''URL'' ''```https://api.example.com/users ```'',
          field ''Body'' ''```no multipart boundary param in Content-Type```'']"
proof -
  have "ParseMultipartForm example_stdlib
          (requests (example_heap ''multipart/form-data'' (Reader ''abc'' None)) 0)
          (snapshot_body (example_heap ''multipart/form-data'' (Reader ''abc'' None)) 0)
        = (Some (ErrOther ''no multipart boundary param in Content-Type''), None)"
    by (simp add: example_stdlib_def example_heap_def Header_Get_def)
  then show ?thesis
    using multipart_error_rendered
            [of live_payload 0 "example_heap ''multipart/form-data'' (Reader ''abc'' None)"
                example_stdlib]
    by (simp add: live_payload_def example_Content_Type example_request)
qed

subsection \<open>Document and delivery\<close>

lemma Level_title_not_MESSAGE: "strings_ToUpper (Level_String l) \<noteq> ''MESSAGE''"
  by (simp add: Level_String_def strings_ToUpper_def)

lemma message_sections_embeds:
  "message_sections (embeds L entry fs) =
     (if sendAsFile entry then []
      else [JObject [(''title'', JString ''MESSAGE''),
                     (''description'', JString (''```'' @ Message entry @ '' ```'')),
                     (''color'', JNumber (embedCollor (Level entry)))]])"
  by (simp add: message_sections_def embeds_def section_title_def Level_title_not_MESSAGE)

text \<open>
  The example library on the documents of two entries without a request, one with
  a message of 500 bytes and one with a message of 501 bytes: the bytes
  \<^verbatim>\<open>json.Marshal\<close> writes.
\<close>

lemma ToUpper_error: "strings_ToUpper (Level_String ErrorLevel) = ''ERROR''"
  by (simp add: strings_ToUpper_def Level_String_def Level_defs char_of_def bit_Suc_0_iff)

lemma decimal_red: "decimal 16725591 = ''16725591''"
  by (simp add: char_of_def bit_Suc_0_iff)

lemma embedCollor_error: "embedCollor ErrorLevel = 16725591"
  by (simp add: embedCollor_def Level_defs)

lemma concat_replicate_single: "concat (replicate n [c]) = replicate n c"
  by (induction n) simp_all

lemma payload_500:
  "Marshal example_stdlib (document example_stdlib (example_entry None (replicate 500 CHR ''m'')) []) =
     Inr (''{\"embeds\":[{\"color\":16725591,\"description\":\"\",\"timestamp\":\"1970-01-01T00:00:00Z\",\"title\":\"ERROR\"},{\"color\":16725591,\"fields\":[],\"title\":\"REQUEST PAYLOAD\"},{\"color\":16725591,\"description\":\"```''
          @ replicate 500 CHR ''m''
          @ '' ```\",\"title\":\"MESSAGE\"}],\"username\":\"Golang\"}'')"
  by (simp add: document_def embeds_def sendAsFile_def maxMessageLength_def example_entry_def
        example_stdlib_def errorMessage_def embedCollor_error ToUpper_error decimal_red
        sort_keys_def quote_def escape_def concat_replicate_single del: decimal.simps)

lemma payload_501:
  "Marshal example_stdlib (document example_stdlib (example_entry None (replicate 501 CHR ''m'')) []) =
     Inr ''{\"embeds\":[{\"color\":16725591,\"description\":\"\",\"timestamp\":\"1970-01-01T00:00:00Z\",\"title\":\"ERROR\"},{\"color\":16725591,\"fields\":[],\"title\":\"REQUEST PAYLOAD\"}],\"username\":\"Golang\"}''"
  by (simp add: document_def embeds_def sendAsFile_def maxMessageLength_def example_entry_def
        example_stdlib_def errorMessage_def embedCollor_error ToUpper_error decimal_red
        sort_keys_def quote_def escape_def del: decimal.simps)

text \<open>
  C1. The goroutine has rendered the request fields, the document has been
  serialised into the payload and the request has been built, so that a delivery is
  made. When the message is at most 500 bytes long, the document that is serialised
  has three sections, the last of them the only one titled "MESSAGE", its description
  the message between the fences; the POST is the payload alone, with the content
  type "application/json", and has no attachment. When the message is longer (and the
  multipart writer has written its two parts), the document that is serialised has
  the first two sections only, none of them titled "MESSAGE", and the POST is
  multipart: the field "payload_json" with the payload, then the file "files[0]",
  named "log.txt", with exactly the message bytes.
\<close>

theorem C1_inline_or_file:
  assumes "request_fields L s drp = Inr fs"
      and "Marshal L (document L entry fs) = Inr payload"
      and "NewRequest L ''POST'' (HookUrl h) = None"
  shows "(length (Message entry) \<le> 500 \<longrightarrow>
            document L entry fs =
              JObject [(''username'', JString ''Golang''),
                       (''embeds'', JArray
                          [JObject [(''title'', JString (strings_ToUpper (Level_String (Level entry)))),
                                    (''description'', JString (errorMessage entry)),
                                    (''timestamp'', JString (FormatRFC3339 L (Time entry))),
                                    (''color'', JNumber (embedCollor (Level entry)))],
                           JObject [(''title'', JString ''REQUEST PAYLOAD''),
                                    (''fields'', JArray fs),
                                    (''color'', JNumber (embedCollor (Level entry)))],
                           JObject [(''title'', JString ''MESSAGE''),
                                    (''description'', JString (''```'' @ Message entry @ '' ```'')),
                                    (''color'', JNumber (embedCollor (Level entry)))]])]
          \<and> message_sections (embeds_of (document L entry fs)) =
              [JObject [(''title'', JString ''MESSAGE''),
                        (''description'', JString (''```'' @ Message entry @ '' ```'')),
                        (''color'', JNumber (embedCollor (Level entry)))]]
          \<and> (\<exists>pr. goroutine L h entry s drp =
                 Done (Some \<lparr>post_url = HookUrl h, post_content_type = ''application/json'',
                             post_body = SinglePart payload\<rparr>) pr))
       \<and> (length (Message entry) > 500
            \<and> CreateFormField L ''payload_json'' = None
            \<and> CreateFormFile L ''files[0]'' ''log.txt'' = None \<longrightarrow>
            document L entry fs =
              JObject [(''username'', JString ''Golang''),
                       (''embeds'', JArray
                          [JObject [(''title'', JString (strings_ToUpper (Level_String (Level entry)))),
                                    (''description'', JString (errorMessage entry)),
                                    (''timestamp'', JString (FormatRFC3339 L (Time entry))),
                                    (''color'', JNumber (embedCollor (Level entry)))],
                           JObject [(''title'', JString ''REQUEST PAYLOAD''),
                                    (''fields'', JArray fs),
                                    (''color'', JNumber (embedCollor (Level entry)))]])]
          \<and> message_sections (embeds_of (document L entry fs)) = []
          \<and> (\<exists>pr. goroutine L h entry s drp =
                 Done (Some \<lparr>post_url = HookUrl h,
                             post_content_type = ''multipart/form-data; boundary='' @ Boundary L,
                             post_body =
                               MultiPart
                                 [\<lparr>part_name = ''payload_json'', part_filename = None,
                                   part_content = payload\<rparr>,
                                  \<lparr>part_name = ''files[0]'', part_filename = Some ''log.txt'',
                                   part_content = Message entry\<rparr>]\<rparr>) pr))"
proof -
  have sent: "\<exists>pr. client_Do L p = Done (Some p) pr" for p
    by (simp add: client_Do_def split: sum.splits)
  have g: "goroutine L h entry s drp = deliver L h entry (document L entry fs)"
    using assms(1) by (simp add: goroutine_def)
  have e: "embeds_of (document L entry fs) = embeds L entry fs"
    by (simp add: embeds_of_def document_def)
  have d: "length (Message entry) \<le> 500 \<longrightarrow>
            document L entry fs =
              JObject [(''username'', JString ''Golang''),
                       (''embeds'', JArray
                          [JObject [(''title'', JString (strings_ToUpper (Level_String (Level entry)))),
                                    (''description'', JString (errorMessage entry)),
                                    (''timestamp'', JString (FormatRFC3339 L (Time entry))),
                                    (''color'', JNumber (embedCollor (Level entry)))],
                           JObject [(''title'', JString ''REQUEST PAYLOAD''),
                                    (''fields'', JArray fs),
                                    (''color'', JNumber (embedCollor (Level entry)))],
                           JObject [(''title'', JString ''MESSAGE''),
                                    (''description'', JString (''```'' @ Message entry @ '' ```'')),
                                    (''color'', JNumber (embedCollor (Level entry)))]])]"
    by (simp add: document_def embeds_def sendAsFile_def maxMessageLength_def)
  have f: "length (Message entry) > 500 \<longrightarrow>
            document L entry fs =
              JObject [(''username'', JString ''Golang''),
                       (''embeds'', JArray
                          [JObject [(''title'', JString (strings_ToUpper (Level_String (Level entry)))),
                                    (''description'', JString (errorMessage entry)),
                                    (''timestamp'', JString (FormatRFC3339 L (Time entry))),
                                    (''color'', JNumber (embedCollor (Level entry)))],
                           JObject [(''title'', JString ''REQUEST PAYLOAD''),
                                    (''fields'', JArray fs),
                                    (''color'', JNumber (embedCollor (Level entry)))]])]"
    by (simp add: document_def embeds_def sendAsFile_def maxMessageLength_def)
  have m: "(length (Message entry) \<le> 500 \<longrightarrow>
              message_sections (embeds_of (document L entry fs)) =
                [JObject [(''title'', JString ''MESSAGE''),
                          (''description'', JString (''```'' @ Message entry @ '' ```'')),
                          (''color'', JNumber (embedCollor (Level entry)))]])
         \<and> (length (Message entry) > 500 \<longrightarrow>
              message_sections (embeds_of (document L entry fs)) = [])"
    by (simp add: e message_sections_embeds sendAsFile_def maxMessageLength_def)
  have p: "(length (Message entry) \<le> 500 \<longrightarrow>
             (\<exists>pr. goroutine L h entry s drp =
                 Done (Some \<lparr>post_url = HookUrl h, post_content_type = ''application/json'',
                             post_body = SinglePart payload\<rparr>) pr))
         \<and> (length (Message entry) > 500
            \<and> CreateFormField L ''payload_json'' = None
            \<and> CreateFormFile L ''files[0]'' ''log.txt'' = None \<longrightarrow>
             (\<exists>pr. goroutine L h entry s drp =
                 Done (Some \<lparr>post_url = HookUrl h,
                             post_content_type = ''multipart/form-data; boundary='' @ Boundary L,
                             post_body =
                               MultiPart
                                 [\<lparr>part_name = ''payload_json'', part_filename = None,
                                   part_content = payload\<rparr>,
                                  \<lparr>part_name = ''files[0]'', part_filename = Some ''log.txt'',
                                   part_content = Message entry\<rparr>]\<rparr>) pr))"
    using assms(2,3) sent
    by (simp add: g deliver_def sendAsFile_def maxMessageLength_def)
  from d f m p show ?thesis by blast
qed

theorem C1_inline_or_file_witness:
  "request_fields example_stdlib (example_heap ''text/plain'' (Reader ''abc'' None)) None = Inr []
   \<and> Marshal example_stdlib (document example_stdlib (example_entry None (replicate 500 CHR ''m'')) [])
       = Inr (''{\"embeds\":[{\"color\":16725591,\"description\":\"\",\"timestamp\":\"1970-01-01T00:00:00Z\",\"title\":\"ERROR\"},{\"color\":16725591,\"fields\":[],\"title\":\"REQUEST PAYLOAD\"},{\"color\":16725591,\"description\":\"```''
          @ replicate 500 CHR ''m''
          @ '' ```\",\"title\":\"MESSAGE\"}],\"username\":\"Golang\"}'')
   \<and> Marshal example_stdlib (document example_stdlib (example_entry None (replicate 501 CHR ''m'')) [])
       = Inr ''{\"embeds\":[{\"color\":16725591,\"description\":\"\",\"timestamp\":\"1970-01-01T00:00:00Z\",\"title\":\"ERROR\"},{\"color\":16725591,\"fields\":[],\"title\":\"REQUEST PAYLOAD\"}],\"username\":\"Golang\"}''
   \<and> NewRequest example_stdlib ''POST'' (HookUrl example_hook) = None
   \<and> length (Message (example_entry None (replicate 500 CHR ''m''))) \<le> 500
   \<and> message_sections
         (embeds_of (document example_stdlib (example_entry None (replicate 500 CHR ''m'')) [])) =
        [JObject [(''title'', JString ''MESSAGE''),
                  (''description'', JString (''```'' @ replicate 500 CHR ''m'' @ '' ```'')),
                  (''color'', JNumber 16725591)]]
   \<and> (\<exists>pr. goroutine example_stdlib example_hook (example_entry None (replicate 500 CHR ''m''))
               (example_heap ''text/plain'' (Reader ''abc'' None)) None =
             Done (Some \<lparr>post_url = ''https://discord.com/api/webhooks/1/token'',
                         post_content_type = ''application/json'',
                         post_body = SinglePart (''{\"embeds\":[{\"color\":16725591,\"description\":\"\",\"timestamp\":\"1970-01-01T00:00:00Z\",\"title\":\"ERROR\"},{\"color\":16725591,\"fields\":[],\"title\":\"REQUEST PAYLOAD\"},{\"color\":16725591,\"description\":\"```''
          @ replicate 500 CHR ''m''
          @ '' ```\",\"title\":\"MESSAGE\"}],\"username\":\"Golang\"}'')\<rparr>) pr)
   \<and> length (Message (example_entry None (replicate 501 CHR ''m''))) > 500
   \<and> CreateFormField example_stdlib ''payload_json'' = None
   \<and> CreateFormFile example_stdlib ''files[0]'' ''log.txt'' = None
   \<and> message_sections
         (embeds_of (document example_stdlib (example_entry None (replicate 501 CHR ''m'')) [])) = []
   \<and> (\<exists>pr. goroutine example_stdlib example_hook (example_entry None (replicate 501 CHR ''m''))
               (example_heap ''text/plain'' (Reader ''abc'' None)) None =
             Done (Some \<lparr>post_url = ''https://discord.com/api/webhooks/1/token'',
                         post_content_type = ''multipart/form-data; boundary=0123456789abcdef'',
                         post_body =
                           MultiPart
                             [\<lparr>part_name = ''payload_json'', part_filename = None,
                               part_content = ''{\"embeds\":[{\"color\":16725591,\"description\":\"\",\"timestamp\":\"1970-01-01T00:00:00Z\",\"title\":\"ERROR\"},{\"color\":16725591,\"fields\":[],\"title\":\"REQUEST PAYLOAD\"}],\"username\":\"Golang\"}''\<rparr>,
                              \<lparr>part_name = ''files[0]'', part_filename = Some ''log.txt'',
                               part_content = replicate 501 CHR ''m''\<rparr>]\<rparr>) pr)"
proof -
  have f: "request_fields example_stdlib (example_heap ''text/plain'' (Reader ''abc'' None)) None = Inr []"
    by (simp add: request_fields_def)
  have n: "NewRequest example_stdlib ''POST'' (HookUrl example_hook) = None"
    "CreateFormField example_stdlib ''payload_json'' = None"
    "CreateFormFile example_stdlib ''files[0]'' ''log.txt'' = None"
    "Boundary example_stdlib = ''0123456789abcdef''"
    by (simp_all add: example_stdlib_def)
  have e: "Message (example_entry None msg) = msg" "Level (example_entry None msg) = ErrorLevel" for msg
    by (simp_all add: example_entry_def)
  have u: "HookUrl example_hook = ''https://discord.com/api/webhooks/1/token''"
    by (simp add: example_hook_def NewHook_def)
  have l500: "length (Message (example_entry None (replicate 500 CHR ''m''))) \<le> 500"
    by (simp add: e)
  have l501: "length (Message (example_entry None (replicate 501 CHR ''m''))) > 500
      \<and> CreateFormField example_stdlib ''payload_json'' = None
      \<and> CreateFormFile example_stdlib ''files[0]'' ''log.txt'' = None"
    by (simp add: e n)
  note short = C1_inline_or_file [OF f payload_500 n(1), THEN conjunct1, rule_format, OF l500]
  note long = C1_inline_or_file [OF f payload_501 n(1), THEN conjunct2, rule_format, OF l501]
  have a: "message_sections
         (embeds_of (document example_stdlib (example_entry None (replicate 500 CHR ''m'')) [])) =
        [JObject [(''title'', JString ''MESSAGE''),
                  (''description'', JString (''```'' @ replicate 500 CHR ''m'' @ '' ```'')),
                  (''color'', JNumber 16725591)]]"
    using short [THEN conjunct2, THEN conjunct1] by (simp add: e embedCollor_error)
  have b: "message_sections
         (embeds_of (document example_stdlib (example_entry None (replicate 501 CHR ''m'')) [])) = []"
    using long [THEN conjunct2, THEN conjunct1] .
  from short [THEN conjunct2, THEN conjunct2] long [THEN conjunct2, THEN conjunct2]
       a b f n payload_500 payload_501 l500 l501
  show ?thesis
    by (simp add: e u)
qed

end
